theory Spec2Isabelle
  imports Complex_Main "HOL-Library.AList"
begin

section \<open>Python exceptions\<close>

text \<open>
  Every exception the modelled code raises or catches is an instance of Python's
  \<open>Exception\<close>; the model keeps the class that is raised and its message.
\<close>

datatype exn =
  Exception string | ValueError string | KeyError string | RuntimeError string
  | AttributeError string

fun str_exn :: "exn \<Rightarrow> string" where
  "str_exn (Exception m) = m"
| "str_exn (ValueError m) = m"
| "str_exn (KeyError m) = m"
| "str_exn (RuntimeError m) = m"
| "str_exn (AttributeError m) = m"

text \<open>Decimal printing of integers, as an f-string does it.\<close>

definition digit_char :: "nat \<Rightarrow> char" where
  "digit_char d = char_of (48 + d)"

function string_of_nat :: "nat \<Rightarrow> string" where
  "string_of_nat n =
     (if n < 10 then [digit_char n] else string_of_nat (n div 10) @ [digit_char (n mod 10)])"
  by pat_completeness auto
termination
  by (relation "measure id") auto

definition string_of_int :: "int \<Rightarrow> string" where
  "string_of_int i = (if i < 0 then CHR ''-'' # string_of_nat (nat (- i)) else string_of_nat (nat i))"

text \<open>
  The module-level \<open>logger\<close>: each call appends one record, level and message.
\<close>

datatype log_level = DEBUG | INFO | WARNING | ERROR

type_synonym log_record = "log_level \<times> string"

text \<open>Timestamps (\<open>datetime\<close>) are counted in microseconds.\<close>

type_synonym datetime = int

section \<open>Circuit breaker (carla-runner/error\_handler.py)\<close>

text \<open>
  The attribute \<open>state\<close> holds one of the three strings \<open>closed\<close>, \<open>open\<close> and
  \<open>half-open\<close>. Timestamps are readings of \<open>time.time()\<close>, taken as real numbers of
  seconds; \<open>last_failure_time\<close> starts as \<open>None\<close>.
\<close>

datatype breaker_state = Closed | Open | HalfOpen

record CircuitBreaker =
  failure_threshold :: int
  timeout :: int
  failure_count :: int
  last_failure_time :: "real option"
  state :: breaker_state

definition CircuitBreaker_init :: "int \<Rightarrow> int \<Rightarrow> CircuitBreaker" where
  "CircuitBreaker_init threshold tmo =
     \<lparr>failure_threshold = threshold, timeout = tmo, failure_count = 0,
      last_failure_time = None, state = Closed\<rparr>"

definition should_attempt_reset :: "CircuitBreaker \<Rightarrow> real \<Rightarrow> bool" where
  "should_attempt_reset cb now =
     (case last_failure_time cb of
        None \<Rightarrow> True
      | Some t \<Rightarrow> now - t \<ge> real_of_int (timeout cb))"

definition on_success :: "CircuitBreaker \<Rightarrow> CircuitBreaker" where
  "on_success cb = cb\<lparr>failure_count := 0, state := Closed\<rparr>"

definition on_failure :: "CircuitBreaker \<Rightarrow> real \<Rightarrow> CircuitBreaker" where
  "on_failure cb now =
     (let cb1 = cb\<lparr>failure_count := failure_count cb + 1, last_failure_time := Some now\<rparr>
      in if failure_count cb1 \<ge> failure_threshold cb1 then cb1\<lparr>state := Open\<rparr> else cb1)"

text \<open>
  The guarded dependency \<open>func\<close> acts on the outside world \<open>'w\<close> and either returns a
  value or raises; \<open>clock\<close> reads \<open>time.time()\<close> off the world. \<open>call\<close> returns what
  the Python call returns or raises, the breaker after the call and the world after it.
  A rejected call raises \<open>Exception("Circuit breaker is open")\<close>.
\<close>

definition circuit_open_error :: exn where
  "circuit_open_error = Exception ''Circuit breaker is open''"

definition call ::
  "('w \<Rightarrow> real) \<Rightarrow> ('w \<Rightarrow> (exn + 'r) \<times> 'w) \<Rightarrow> CircuitBreaker \<Rightarrow> 'w
     \<Rightarrow> (exn + 'r) \<times> CircuitBreaker \<times> 'w" where
  "call clock func cb w =
     (if state cb = Open \<and> \<not> should_attempt_reset cb (clock w)
      then (Inl circuit_open_error, cb, w)
      else
        let cb1 = (if state cb = Open then cb\<lparr>state := HalfOpen\<rparr> else cb)
        in case func w of
             (Inr result, w') \<Rightarrow> (Inr result, on_success cb1, w')
           | (Inl e, w') \<Rightarrow> (Inl e, on_failure cb1 (clock w'), w'))"


text \<open>
  What holds of every breaker between two calls: it is closed, or it is open with the
  threshold reached and a failure time recorded.
\<close>

definition breaker_ok :: "CircuitBreaker \<Rightarrow> bool" where
  "breaker_ok cb =
     (state cb = Closed \<or>
      (state cb = Open \<and> failure_threshold cb \<le> failure_count cb \<and> last_failure_time cb \<noteq> None))"



section \<open>State manager (carla-runner/state\_manager.py)\<close>

text \<open>
  The simulator is an external library. Its world is modelled by the actors it holds and
  its weather; \<open>spawn_actor\<close> raises where the simulator refuses the spawn point
  (\<open>spawn_blocked\<close>) and otherwise adds an actor with the blueprint and transform it was
  given.
\<close>

datatype Location = Location real real real

datatype Rotation = Rotation real real real

datatype Transform = Transform Location Rotation

datatype WeatherParameters = WeatherParameters real real real real

record Actor =
  blueprint :: string
  actor_transform :: Transform

record World =
  actors :: "Actor list"
  weather :: WeatherParameters
  spawn_blocked :: "Transform \<Rightarrow> bool"

definition spawn_actor :: "World \<Rightarrow> string \<Rightarrow> Transform \<Rightarrow> (exn + Actor) \<times> World" where
  "spawn_actor world bp t =
     (if spawn_blocked world t
      then (Inl (RuntimeError ''Spawn failed because of collision at spawn position''), world)
      else let a = \<lparr>blueprint = bp, actor_transform = t\<rparr>
           in (Inr a, world\<lparr>actors := actors world @ [a]\<rparr>))"

definition set_weather :: "World \<Rightarrow> WeatherParameters \<Rightarrow> World" where
  "set_weather world wp = world\<lparr>weather := wp\<rparr>"

datatype pyval = PyInt int | PyFloat real | PyStr string

text \<open>
  A checkpoint keeps its pose, physics and weather in dictionaries; a subscript on a
  missing key raises \<open>KeyError\<close>.
\<close>

record SimulationCheckpoint =
  checkpoint_simulation_id :: string
  checkpoint_timestamp :: datetime
  vehicle_transform :: "string \<rightharpoonup> (string \<rightharpoonup> real)"
  vehicle_physics :: "string \<rightharpoonup> (string \<rightharpoonup> real)"
  world_state :: "string \<rightharpoonup> pyval"
  weather_conditions :: "string \<rightharpoonup> real"
  traffic_state :: "string \<rightharpoonup> int"
  sensor_configs :: "string \<rightharpoonup> pyval"

record ErrorRecord =
  timestamp :: datetime
  simulation_id :: string
  error_type :: string
  error_message :: string
  stack_trace :: string
  recovery_attempted :: bool
  recovery_successful :: bool

text \<open>
  The state manager's in-memory state. Its copies on disk and in the storage bucket are
  written on a best-effort basis (their errors are swallowed) and are left out.
\<close>

record StateManager =
  checkpoints :: "string \<rightharpoonup> SimulationCheckpoint"
  error_history :: "ErrorRecord list"
  sm_log :: "log_record list"

definition subscript :: "(string \<rightharpoonup> 'v) \<Rightarrow> string \<Rightarrow> exn + 'v" where
  "subscript d k = (case d k of None \<Rightarrow> Inl (KeyError k) | Some v \<Rightarrow> Inr v)"

definition subscript2 :: "(string \<rightharpoonup> (string \<rightharpoonup> 'v)) \<Rightarrow> string \<Rightarrow> string \<Rightarrow> exn + 'v" where
  "subscript2 d k1 k2 = (case subscript d k1 of Inl e \<Rightarrow> Inl e | Inr d1 \<Rightarrow> subscript d1 k2)"

text \<open>The transform that \<open>restore_checkpoint\<close> builds, its six subscripts in order.\<close>

definition checkpoint_transform :: "SimulationCheckpoint \<Rightarrow> exn + Transform" where
  "checkpoint_transform checkpoint =
     (case subscript2 (vehicle_transform checkpoint) ''location'' ''x'' of Inl e \<Rightarrow> Inl e | Inr x \<Rightarrow>
     (case subscript2 (vehicle_transform checkpoint) ''location'' ''y'' of Inl e \<Rightarrow> Inl e | Inr y \<Rightarrow>
     (case subscript2 (vehicle_transform checkpoint) ''location'' ''z'' of Inl e \<Rightarrow> Inl e | Inr z \<Rightarrow>
     (case subscript2 (vehicle_transform checkpoint) ''rotation'' ''pitch'' of Inl e \<Rightarrow> Inl e | Inr pitch \<Rightarrow>
     (case subscript2 (vehicle_transform checkpoint) ''rotation'' ''yaw'' of Inl e \<Rightarrow> Inl e | Inr yaw \<Rightarrow>
     (case subscript2 (vehicle_transform checkpoint) ''rotation'' ''roll'' of Inl e \<Rightarrow> Inl e | Inr roll \<Rightarrow>
        Inr (Transform (Location x y z) (Rotation pitch yaw roll))))))))"

definition checkpoint_weather :: "SimulationCheckpoint \<Rightarrow> exn + WeatherParameters" where
  "checkpoint_weather checkpoint =
     (case subscript (weather_conditions checkpoint) ''cloudiness'' of Inl e \<Rightarrow> Inl e | Inr c \<Rightarrow>
     (case subscript (weather_conditions checkpoint) ''precipitation'' of Inl e \<Rightarrow> Inl e | Inr p \<Rightarrow>
     (case subscript (weather_conditions checkpoint) ''sun_altitude_angle'' of Inl e \<Rightarrow> Inl e | Inr a \<Rightarrow>
     (case subscript (weather_conditions checkpoint) ''wind_intensity'' of Inl e \<Rightarrow> Inl e | Inr i \<Rightarrow>
        Inr (WeatherParameters c p a i)))))"

definition sm_logger :: "log_level \<Rightarrow> string \<Rightarrow> StateManager \<Rightarrow> StateManager" where
  "sm_logger lvl msg sm = sm\<lparr>sm_log := sm_log sm @ [(lvl, msg)]\<rparr>"

text \<open>
  \<open>restore_checkpoint\<close> returns the spawned vehicle or \<open>None\<close>, with the state manager
  (only its log changes) and the world after the call.
\<close>

definition restore_checkpoint ::
  "StateManager \<Rightarrow> string \<Rightarrow> World \<Rightarrow> string \<Rightarrow> Actor option \<times> StateManager \<times> World" where
  "restore_checkpoint sm sim_id world vehicle_bp =
     (case checkpoints sm sim_id of
        None \<Rightarrow>
          (None, sm_logger WARNING (''No checkpoint found for simulation '' @ sim_id) sm, world)
      | Some checkpoint \<Rightarrow>
          (case checkpoint_transform checkpoint of
             Inl e \<Rightarrow>
               (None, sm_logger ERROR (''Failed to restore checkpoint for '' @ sim_id @ '': '' @ str_exn e) sm, world)
           | Inr t \<Rightarrow>
               (case spawn_actor world vehicle_bp t of
                  (Inl e, world1) \<Rightarrow>
                    (None, sm_logger ERROR (''Failed to restore checkpoint for '' @ sim_id @ '': '' @ str_exn e) sm, world1)
                | (Inr vehicle, world1) \<Rightarrow>
                    (case checkpoint_weather checkpoint of
                       Inl e \<Rightarrow>
                         (None, sm_logger ERROR (''Failed to restore checkpoint for '' @ sim_id @ '': '' @ str_exn e) sm, world1)
                     | Inr wp \<Rightarrow>
                         (Some vehicle,
                          sm_logger INFO (''Restored simulation '' @ sim_id @ '' from checkpoint'') sm,
                          set_weather world1 wp)))))"

definition record_error ::
  "datetime \<Rightarrow> string \<Rightarrow> string \<Rightarrow> string \<Rightarrow> string \<Rightarrow> StateManager \<Rightarrow> StateManager" where
  "record_error now sim_id etype msg strace sm =
     (let error_record =
            \<lparr>timestamp = now, simulation_id = sim_id, error_type = etype, error_message = msg,
             stack_trace = strace, recovery_attempted = False, recovery_successful = False\<rparr>
      in sm_logger ERROR (''Recorded error for '' @ sim_id @ '': '' @ etype @ '' - '' @ msg)
           (sm\<lparr>error_history := error_history sm @ [error_record]\<rparr>))"

section \<open>Error handler (carla-runner/error\_handler.py)\<close>

datatype ErrorType =
  CARLA_CRASH | CARLA_TIMEOUT | MEMORY_EXHAUSTION | GPU_ERROR | NETWORK_ERROR
  | SIMULATION_ERROR | RESOURCE_EXHAUSTION

fun ErrorType_value :: "ErrorType \<Rightarrow> string" where
  "ErrorType_value CARLA_CRASH = ''carla_crash''"
| "ErrorType_value CARLA_TIMEOUT = ''carla_timeout''"
| "ErrorType_value MEMORY_EXHAUSTION = ''memory_exhaustion''"
| "ErrorType_value GPU_ERROR = ''gpu_error''"
| "ErrorType_value NETWORK_ERROR = ''network_error''"
| "ErrorType_value SIMULATION_ERROR = ''simulation_error''"
| "ErrorType_value RESOURCE_EXHAUSTION = ''resource_exhaustion''"

datatype RecoveryStrategy =
  RESTART_CARLA | RESTART_SIMULATION | RESTORE_CHECKPOINT | SCALE_DOWN | WAIT_AND_RETRY
  | FAIL_GRACEFULLY

fun RecoveryStrategy_value :: "RecoveryStrategy \<Rightarrow> string" where
  "RecoveryStrategy_value RESTART_CARLA = ''restart_carla''"
| "RecoveryStrategy_value RESTART_SIMULATION = ''restart_simulation''"
| "RecoveryStrategy_value RESTORE_CHECKPOINT = ''restore_checkpoint''"
| "RecoveryStrategy_value SCALE_DOWN = ''scale_down''"
| "RecoveryStrategy_value WAIT_AND_RETRY = ''wait_and_retry''"
| "RecoveryStrategy_value FAIL_GRACEFULLY = ''fail_gracefully''"

record RecoveryAction =
  strategy :: RecoveryStrategy
  max_attempts :: int
  delay_seconds :: int
  timeout_seconds :: int

text \<open>
  The handler's state: the table of recovery actions set up by the constructor, the
  attempt counters per simulation and error type, the server process it started last
  (a process handle, if any), the restart counter and its cap, the state manager it
  writes to, and the log.
\<close>

record ErrorHandler =
  state_manager :: StateManager
  recovery_strategies :: "ErrorType \<rightharpoonup> RecoveryAction"
  recovery_attempts :: "string \<rightharpoonup> (ErrorType \<rightharpoonup> int)"
  carla_process :: "nat option"
  carla_restart_count :: int
  max_carla_restarts :: int
  eh_log :: "log_record list"

fun default_recovery_strategies :: "ErrorType \<Rightarrow> RecoveryAction" where
  "default_recovery_strategies CARLA_CRASH =
     \<lparr>strategy = RESTART_CARLA, max_attempts = 3, delay_seconds = 10, timeout_seconds = 120\<rparr>"
| "default_recovery_strategies CARLA_TIMEOUT =
     \<lparr>strategy = WAIT_AND_RETRY, max_attempts = 2, delay_seconds = 5, timeout_seconds = 30\<rparr>"
| "default_recovery_strategies MEMORY_EXHAUSTION =
     \<lparr>strategy = SCALE_DOWN, max_attempts = 1, delay_seconds = 0, timeout_seconds = 60\<rparr>"
| "default_recovery_strategies GPU_ERROR =
     \<lparr>strategy = RESTART_CARLA, max_attempts = 2, delay_seconds = 15, timeout_seconds = 180\<rparr>"
| "default_recovery_strategies NETWORK_ERROR =
     \<lparr>strategy = WAIT_AND_RETRY, max_attempts = 3, delay_seconds = 2, timeout_seconds = 10\<rparr>"
| "default_recovery_strategies SIMULATION_ERROR =
     \<lparr>strategy = RESTORE_CHECKPOINT, max_attempts = 2, delay_seconds = 1, timeout_seconds = 30\<rparr>"
| "default_recovery_strategies RESOURCE_EXHAUSTION =
     \<lparr>strategy = SCALE_DOWN, max_attempts = 1, delay_seconds = 0, timeout_seconds = 30\<rparr>"

definition ErrorHandler_init :: "StateManager \<Rightarrow> ErrorHandler" where
  "ErrorHandler_init sm =
     \<lparr>state_manager = sm,
      recovery_strategies = (\<lambda>t. Some (default_recovery_strategies t)),
      recovery_attempts = Map.empty,
      carla_process = None,
      carla_restart_count = 0,
      max_carla_restarts = 5,
      eh_log = []\<rparr>"

definition eh_logger :: "log_level \<Rightarrow> string \<Rightarrow> ErrorHandler \<Rightarrow> ErrorHandler" where
  "eh_logger lvl msg eh = eh\<lparr>eh_log := eh_log eh @ [(lvl, msg)]\<rparr>"

text \<open>
  The \<open>context\<close> dictionary of \<open>handle_error\<close>, by the keys the handler reads; the
  simulation manager under \<open>sim_manager\<close> is an external object of which only the
  presence matters here.
\<close>

record error_context =
  ctx_stack_trace :: "string option"
  ctx_world :: "World option"
  ctx_vehicle_bp :: "string option"
  ctx_sim_manager :: bool

definition empty_context :: error_context where
  "empty_context =
     \<lparr>ctx_stack_trace = None, ctx_world = None, ctx_vehicle_bp = None, ctx_sim_manager = False\<rparr>"

text \<open>
  What the outside answers while a strategy runs: whether the old server process is
  still running, what starting the new process gives (a handle, or the exception of
  \<open>Popen\<close>), whether the connection test on the restarted server passes, and whether
  the simulation manager's cleanup raises.
\<close>

record recovery_env =
  process_running :: bool
  launch_carla :: "exn + nat"
  connection_test :: "exn + unit"
  cleanup_simulation :: "exn + unit"

definition should_attempt_recovery :: "ErrorHandler \<Rightarrow> string \<Rightarrow> ErrorType \<Rightarrow> exn + bool" where
  "should_attempt_recovery eh sim_id etype =
     (case recovery_attempts eh sim_id of
        None \<Rightarrow> Inr True
      | Some per_type \<Rightarrow>
          (let attempts = (case per_type etype of None \<Rightarrow> 0 | Some n \<Rightarrow> n)
           in case recovery_strategies eh etype of
                None \<Rightarrow> Inl (KeyError (ErrorType_value etype))
              | Some action \<Rightarrow> Inr (attempts < max_attempts action)))"

definition increment_recovery_attempt :: "string \<Rightarrow> ErrorType \<Rightarrow> ErrorHandler \<Rightarrow> ErrorHandler" where
  "increment_recovery_attempt sim_id etype eh =
     (let per_type = (case recovery_attempts eh sim_id of None \<Rightarrow> Map.empty | Some m \<Rightarrow> m);
          current_attempts = (case per_type etype of None \<Rightarrow> 0 | Some n \<Rightarrow> n)
      in eh\<lparr>recovery_attempts :=
              (recovery_attempts eh)(sim_id \<mapsto> per_type(etype \<mapsto> current_attempts + 1))\<rparr>)"

text \<open>The counter that \<open>get_recovery_status\<close> reports for a simulation and error type.\<close>

definition attempts_of :: "ErrorHandler \<Rightarrow> string \<Rightarrow> ErrorType \<Rightarrow> int" where
  "attempts_of eh sim_id etype =
     (case recovery_attempts eh sim_id of
        None \<Rightarrow> 0
      | Some per_type \<Rightarrow> (case per_type etype of None \<Rightarrow> 0 | Some n \<Rightarrow> n))"

definition restart_carla_server :: "recovery_env \<Rightarrow> ErrorHandler \<Rightarrow> bool \<times> ErrorHandler" where
  "restart_carla_server env eh =
     (if carla_restart_count eh \<ge> max_carla_restarts eh
      then (False, eh_logger ERROR ''Maximum CARLA restart attempts reached'' eh)
      else
        let eh1 = (if carla_process eh \<noteq> None \<and> process_running env
                   then eh_logger INFO ''Terminating existing CARLA process'' eh else eh);
            eh2 = eh_logger INFO ''Starting new CARLA server process'' eh1
        in case launch_carla env of
             Inl e \<Rightarrow> (False, eh_logger ERROR (''Failed to restart CARLA server: '' @ str_exn e) eh2)
           | Inr p \<Rightarrow>
               (let eh3 = eh2\<lparr>carla_process := Some p\<rparr>
                in case connection_test env of
                     Inr _ \<Rightarrow>
                       (let eh4 = eh3\<lparr>carla_restart_count := carla_restart_count eh3 + 1\<rparr>
                        in (True,
                            eh_logger INFO
                              (''CARLA server restarted successfully (attempt '' @
                               string_of_int (carla_restart_count eh4) @ '')'') eh4))
                   | Inl e \<Rightarrow>
                       (False,
                        eh_logger ERROR
                          (''CARLA server restart failed - connection test failed: '' @ str_exn e)
                          eh3)))"

definition restart_simulation ::
  "recovery_env \<Rightarrow> string \<Rightarrow> error_context \<Rightarrow> ErrorHandler \<Rightarrow> bool \<times> ErrorHandler" where
  "restart_simulation env sim_id ctx eh =
     (if \<not> ctx_sim_manager ctx
      then (False, eh_logger ERROR ''Simulation manager not available in context'' eh)
      else case cleanup_simulation env of
             Inl e \<Rightarrow>
               (False,
                eh_logger ERROR (''Failed to restart simulation '' @ sim_id @ '': '' @ str_exn e) eh)
           | Inr _ \<Rightarrow>
               (case checkpoints (state_manager eh) sim_id of
                  None \<Rightarrow>
                    (False, eh_logger ERROR (''No checkpoint found for simulation '' @ sim_id) eh)
                | Some checkpoint \<Rightarrow>
                    (True, eh_logger INFO (''Simulation '' @ sim_id @ '' restart completed'') eh)))"

text \<open>
  \<open>not world or not vehicle_bp\<close>: a missing entry and an empty blueprint name are both
  falsy.
\<close>

definition restore_from_checkpoint ::
  "string \<Rightarrow> error_context \<Rightarrow> ErrorHandler \<Rightarrow> bool \<times> ErrorHandler \<times> error_context" where
  "restore_from_checkpoint sim_id ctx eh =
     (case (ctx_world ctx, ctx_vehicle_bp ctx) of
        (Some world, Some vehicle_bp) \<Rightarrow>
          (if vehicle_bp = []
           then (False,
                 eh_logger ERROR ''Required objects not available in context for checkpoint restore'' eh,
                 ctx)
           else case restore_checkpoint (state_manager eh) sim_id world vehicle_bp of
                  (Some restored_vehicle, sm1, world1) \<Rightarrow>
                    (True,
                     eh_logger INFO
                       (''Successfully restored simulation '' @ sim_id @ '' from checkpoint'')
                       (eh\<lparr>state_manager := sm1\<rparr>),
                     ctx\<lparr>ctx_world := Some world1\<rparr>)
                | (None, sm1, world1) \<Rightarrow>
                    (False,
                     eh_logger ERROR
                       (''Failed to restore simulation '' @ sim_id @ '' from checkpoint'')
                       (eh\<lparr>state_manager := sm1\<rparr>),
                     ctx\<lparr>ctx_world := Some world1\<rparr>))
      | _ \<Rightarrow>
          (False,
           eh_logger ERROR ''Required objects not available in context for checkpoint restore'' eh,
           ctx))"

definition scale_down_resources :: "string \<Rightarrow> ErrorHandler \<Rightarrow> bool \<times> ErrorHandler" where
  "scale_down_resources sim_id eh =
     (True,
      eh_logger INFO ''Resource scaling completed''
        (eh_logger INFO (''Scaling down resources for simulation '' @ sim_id) eh))"

definition wait_and_retry :: "int \<Rightarrow> ErrorHandler \<Rightarrow> bool \<times> ErrorHandler" where
  "wait_and_retry delay eh =
     (True, eh_logger INFO (''Waiting '' @ string_of_int delay @ '' seconds before retry'') eh)"

definition fail_gracefully :: "string \<Rightarrow> ErrorHandler \<Rightarrow> bool \<times> ErrorHandler" where
  "fail_gracefully sim_id eh =
     (True, eh_logger INFO (''Failing gracefully for simulation '' @ sim_id) eh)"

definition execute_recovery_strategy ::
  "recovery_env \<Rightarrow> string \<Rightarrow> RecoveryAction \<Rightarrow> error_context \<Rightarrow> ErrorHandler
     \<Rightarrow> bool \<times> ErrorHandler \<times> error_context" where
  "execute_recovery_strategy env sim_id recovery_action ctx eh =
     (let eh1 = eh_logger INFO
                  (''Executing recovery strategy: '' @
                   RecoveryStrategy_value (strategy recovery_action) @ '' for '' @ sim_id) eh
      in case strategy recovery_action of
           RESTART_CARLA \<Rightarrow> (case restart_carla_server env eh1 of (b, eh2) \<Rightarrow> (b, eh2, ctx))
         | RESTART_SIMULATION \<Rightarrow>
             (case restart_simulation env sim_id ctx eh1 of (b, eh2) \<Rightarrow> (b, eh2, ctx))
         | RESTORE_CHECKPOINT \<Rightarrow> restore_from_checkpoint sim_id ctx eh1
         | SCALE_DOWN \<Rightarrow> (case scale_down_resources sim_id eh1 of (b, eh2) \<Rightarrow> (b, eh2, ctx))
         | WAIT_AND_RETRY \<Rightarrow>
             (case wait_and_retry (delay_seconds recovery_action) eh1 of (b, eh2) \<Rightarrow> (b, eh2, ctx))
         | FAIL_GRACEFULLY \<Rightarrow> (case fail_gracefully sim_id eh1 of (b, eh2) \<Rightarrow> (b, eh2, ctx)))"

text \<open>
  The write-back at the end of \<open>handle_error\<close>: the last record of the history gets the
  outcome; nothing happens on an empty history.
\<close>

definition update_last_error :: "bool \<Rightarrow> StateManager \<Rightarrow> StateManager" where
  "update_last_error success sm =
     (if error_history sm = [] then sm
      else sm\<lparr>error_history :=
                butlast (error_history sm) @
                [(last (error_history sm))\<lparr>recovery_attempted := True,
                                            recovery_successful := success\<rparr>]\<rparr>)"

text \<open>
  The first two statements of \<open>handle_error\<close>: the log line and the error record.
  \<open>now\<close> is the reading of \<open>datetime.now()\<close> for the record; the stack trace is
  taken from the context when there is one.
\<close>

definition context_stack_trace :: "error_context option \<Rightarrow> string" where
  "context_stack_trace ctxo =
     (case ctxo of None \<Rightarrow> [] | Some ctx \<Rightarrow> (case ctx_stack_trace ctx of None \<Rightarrow> [] | Some st \<Rightarrow> st))"

definition note_error ::
  "datetime \<Rightarrow> string \<Rightarrow> ErrorType \<Rightarrow> string \<Rightarrow> error_context option \<Rightarrow> ErrorHandler \<Rightarrow> ErrorHandler" where
  "note_error now sim_id etype msg ctxo eh =
     (let eh1 = eh_logger ERROR
                  (''Handling error for '' @ sim_id @ '': '' @ ErrorType_value etype @ '' - '' @ msg) eh
      in eh1\<lparr>state_manager :=
               record_error now sim_id (ErrorType_value etype) msg (context_stack_trace ctxo)
                 (state_manager eh1)\<rparr>)"

text \<open>
  \<open>handle_error\<close> returns what the Python call returns (or the exception it lets
  through), the handler after the call and the context with the world as the strategy
  left it; \<open>context\<close> is \<open>None\<close> when the caller passes none, and the strategy
  then runs on the empty dictionary.
\<close>

definition handle_error ::
  "recovery_env \<Rightarrow> datetime \<Rightarrow> string \<Rightarrow> ErrorType \<Rightarrow> string \<Rightarrow> error_context option \<Rightarrow> ErrorHandler
     \<Rightarrow> (exn + bool) \<times> ErrorHandler \<times> error_context option" where
  "handle_error env now sim_id etype msg ctxo eh =
     (let eh2 = note_error now sim_id etype msg ctxo eh
      in case should_attempt_recovery eh2 sim_id etype of
           Inl e \<Rightarrow> (Inl e, eh2, ctxo)
         | Inr False \<Rightarrow>
             (Inr False,
              eh_logger WARNING
                (''Max recovery attempts reached for '' @ sim_id @ '', '' @ ErrorType_value etype) eh2,
              ctxo)
         | Inr True \<Rightarrow>
             (case recovery_strategies eh2 etype of
                None \<Rightarrow>
                  (Inr False,
                   eh_logger ERROR
                     (''No recovery strategy defined for '' @ ErrorType_value etype) eh2,
                   ctxo)
              | Some recovery_action \<Rightarrow>
                  (let eh3 = increment_recovery_attempt sim_id etype eh2;
                       ctx = (case ctxo of None \<Rightarrow> empty_context | Some c \<Rightarrow> c)
                   in case execute_recovery_strategy env sim_id recovery_action ctx eh3 of
                        (success, eh4, ctx') \<Rightarrow>
                          (Inr success,
                           eh4\<lparr>state_manager := update_last_error success (state_manager eh4)\<rparr>,
                           (case ctxo of None \<Rightarrow> None | Some c \<Rightarrow> Some ctx')))))"

text \<open>A run of \<open>handle_error\<close> calls, one after the other; the results are dropped.\<close>

type_synonym error_event =
  "recovery_env \<times> datetime \<times> string \<times> ErrorType \<times> string \<times> error_context option"

fun handle_errors :: "error_event list \<Rightarrow> ErrorHandler \<Rightarrow> ErrorHandler" where
  "handle_errors [] eh = eh"
| "handle_errors ((env, now, sim_id, etype, msg, ctxo) # evs) eh =
     handle_errors evs (fst (snd (handle_error env now sim_id etype msg ctxo eh)))"

text \<open>
  The handler still has the table its constructor set up, and no counter is above the
  \<open>max_attempts\<close> of its error type.
\<close>

definition configured :: "ErrorHandler \<Rightarrow> bool" where
  "configured eh = (\<forall>etype. recovery_strategies eh etype = Some (default_recovery_strategies etype))"

definition attempts_bounded :: "ErrorHandler \<Rightarrow> bool" where
  "attempts_bounded eh =
     (configured eh \<and>
      (\<forall>sim_id etype. attempts_of eh sim_id etype \<le> max_attempts (default_recovery_strategies etype)))"


section \<open>Workflow orchestrator (orchestrator/src/services/workflow\_orchestrator.py)\<close>

subsection \<open>Configuration and workflow state\<close>

datatype WorkflowPhase =
  INITIALIZATION | CARLA_SETUP | DREAMER_SETUP | SIMULATION_EXECUTION | RESULT_PROCESSING
  | CLEANUP | COMPLETED | FAILED

fun WorkflowPhase_value :: "WorkflowPhase \<Rightarrow> string" where
  "WorkflowPhase_value INITIALIZATION = ''initialization''"
| "WorkflowPhase_value CARLA_SETUP = ''carla_setup''"
| "WorkflowPhase_value DREAMER_SETUP = ''dreamer_setup''"
| "WorkflowPhase_value SIMULATION_EXECUTION = ''simulation_execution''"
| "WorkflowPhase_value RESULT_PROCESSING = ''result_processing''"
| "WorkflowPhase_value CLEANUP = ''cleanup''"
| "WorkflowPhase_value COMPLETED = ''completed''"
| "WorkflowPhase_value FAILED = ''failed''"

record CarlaConfig =
  town :: string
  weather_preset :: string
  num_vehicles :: int
  num_pedestrians :: int
  simulation_time :: int

record DreamerConfig =
  model_path :: string
  batch_size :: int
  sequence_length :: int
  use_gpu :: bool

text \<open>
  The two nested configurations are optional here so that the checks
  \<open>not config.carla_config\<close> and \<open>not config.dreamer_config\<close> have their branch.
\<close>

record ExperimentConfig =
  config_experiment_id :: string
  config_name :: string
  carla_config :: "CarlaConfig option"
  dreamer_config :: "DreamerConfig option"

record Settings =
  max_retries :: int
  retry_delay :: int

text \<open>
  What the orchestrator reads of the dictionary that a collaborator returns: the entry
  \<open>session_id\<close>, the entry \<open>status\<close>, and the entries taken as metrics.
\<close>

record reply =
  reply_session_id :: "string option"
  reply_status :: "string option"
  reply_metrics :: "(string \<times> real) list"

record LoopSummary =
  total_steps :: int
  total_time_seconds :: real
  steps_per_second :: real
  summary_error_count :: int

record SimulationResults =
  results_metrics :: "(string \<times> real) list"
  results_events :: "string list"
  results_artifacts :: "string list"
  results_summary :: "LoopSummary option"

record PhaseData =
  carla_initialization :: "reply option"
  dreamer_initialization :: "reply option"
  simulation_results :: "SimulationResults option"

record WorkflowState =
  experiment_id :: string
  config :: ExperimentConfig
  current_phase :: WorkflowPhase
  phase_start_time :: datetime
  total_start_time :: datetime
  carla_session_id :: "string option"
  dreamer_session_id :: "string option"
  error_count :: int
  retry_count :: int
  phase_data :: PhaseData
  metrics :: "(string \<times> real) list"
  artifacts :: "string list"
  is_cancelled :: bool

definition WorkflowState_init :: "string \<Rightarrow> ExperimentConfig \<Rightarrow> datetime \<Rightarrow> WorkflowState" where
  "WorkflowState_init eid cfg now =
     \<lparr>experiment_id = eid, config = cfg, current_phase = INITIALIZATION,
      phase_start_time = now, total_start_time = now,
      carla_session_id = None, dreamer_session_id = None,
      error_count = 0, retry_count = 0,
      phase_data = \<lparr>carla_initialization = None, dreamer_initialization = None,
                    simulation_results = None\<rparr>,
      metrics = [], artifacts = [], is_cancelled = False\<rparr>"

subsection \<open>The collaborators\<close>

text \<open>
  Every awaited call on the data store, the event publisher and the service client, and
  every \<open>asyncio.sleep\<close>, with the arguments that identify it.
\<close>

datatype call =
    UpdateExperimentPhase string string
  | UpdateExperimentError string string
  | UpdateExperimentFailed string string
  | UpdateExperimentProgress string
  | StoreExperimentMetrics string
  | StoreExperimentArtifact string string
  | StoreExperimentSummary string
  | PublishExperimentEvent string string
  | InitializeCarlaSimulation
  | StartCarlaSimulation "string option"
  | StopCarlaSimulation string
  | GetSimulationState "string option"
  | ApplySimulationAction "string option"
  | GetSimulationMetrics "string option"
  | InitializeDreamerModel
  | GetAiDecision "string option"
  | ReleaseDreamerSession string
  | SubmitExperimentResults string
  | CheckServiceHealth string
  | AsyncioSleep real

text \<open>
  The outside of an orchestrator: what the \<open>n\<close>-th awaited call returns or raises,
  what \<open>datetime.utcnow()\<close> reads once \<open>n\<close> calls have been awaited (time passes
  while the orchestrator waits), and for which experiment, if any, another task calls
  \<open>cancel_workflow\<close> while the \<open>n\<close>-th call is awaited.
\<close>

record environment =
  outcome :: "nat \<Rightarrow> call \<Rightarrow> exn + reply"
  utcnow :: "nat \<Rightarrow> datetime"
  cancel_request :: "nat \<Rightarrow> string option"

text \<open>
  The orchestrator: its settings, the dictionary \<open>active_workflows\<close> from experiment
  ids to \<open>WorkflowState\<close> objects, the objects themselves (\<open>heap\<close>, by reference;
  \<open>next_ref\<close> is the next unused reference), the calls awaited so far and the log.
\<close>

record orchestrator =
  settings :: Settings
  active_workflows :: "string \<rightharpoonup> nat"
  heap :: "nat \<Rightarrow> WorkflowState"
  next_ref :: nat
  trace :: "call list"
  orch_log :: "log_record list"

text \<open>The content of a reference that holds no object; it is never read.\<close>

definition unallocated :: WorkflowState where
  "unallocated =
     WorkflowState_init []
       \<lparr>config_experiment_id = [], config_name = [], carla_config = None, dreamer_config = None\<rparr> 0"

definition WorkflowOrchestrator_init :: "Settings \<Rightarrow> orchestrator" where
  "WorkflowOrchestrator_init st =
     \<lparr>settings = st, active_workflows = Map.empty, heap = (\<lambda>a. unallocated), next_ref = 0,
      trace = [], orch_log = []\<rparr>"

definition logger :: "log_level \<Rightarrow> string \<Rightarrow> orchestrator \<Rightarrow> orchestrator" where
  "logger lvl msg s = s\<lparr>orch_log := orch_log s @ [(lvl, msg)]\<rparr>"

definition modify :: "nat \<Rightarrow> (WorkflowState \<Rightarrow> WorkflowState) \<Rightarrow> orchestrator \<Rightarrow> orchestrator" where
  "modify a f s = s\<lparr>heap := (heap s)(a := f (heap s a))\<rparr>"

definition utc_now :: "environment \<Rightarrow> orchestrator \<Rightarrow> datetime" where
  "utc_now env s = utcnow env (length (trace s))"

text \<open>
  \<open>timedelta.seconds\<close> and \<open>timedelta.total_seconds()\<close> of a difference of two
  readings.
\<close>

definition timedelta_seconds :: "int \<Rightarrow> int" where
  "timedelta_seconds d = (d div 1000000) mod 86400"

definition timedelta_total_seconds :: "int \<Rightarrow> real" where
  "timedelta_total_seconds d = real_of_int d / 1000000"

subsection \<open>Sequencing\<close>

text \<open>
  A step of the orchestrator takes the state and gives a value or the exception raised,
  and the state after it.
\<close>

definition succeed :: "'a \<Rightarrow> 's \<Rightarrow> (exn + 'a) \<times> 's" where
  "succeed x s = (Inr x, s)"

definition throw :: "exn \<Rightarrow> 's \<Rightarrow> (exn + 'a) \<times> 's" where
  "throw e s = (Inl e, s)"

definition effect :: "('s \<Rightarrow> 's) \<Rightarrow> 's \<Rightarrow> (exn + unit) \<times> 's" where
  "effect f s = (Inr (), f s)"

definition and_then ::
  "('s \<Rightarrow> (exn + 'a) \<times> 's) \<Rightarrow> ('a \<Rightarrow> 's \<Rightarrow> (exn + 'b) \<times> 's) \<Rightarrow> 's \<Rightarrow> (exn + 'b) \<times> 's" where
  "and_then m f s = (case m s of (Inl e, s1) \<Rightarrow> (Inl e, s1) | (Inr x, s1) \<Rightarrow> f x s1)"

definition try_except ::
  "('s \<Rightarrow> (exn + 'a) \<times> 's) \<Rightarrow> (exn \<Rightarrow> 's \<Rightarrow> (exn + 'a) \<times> 's) \<Rightarrow> 's \<Rightarrow> (exn + 'a) \<times> 's" where
  "try_except m h s = (case m s of (Inl e, s1) \<Rightarrow> h e s1 | (Inr x, s1) \<Rightarrow> (Inr x, s1))"

subsection \<open>Awaited calls and cancellation\<close>

definition plain_call :: "environment \<Rightarrow> call \<Rightarrow> orchestrator \<Rightarrow> (exn + reply) \<times> orchestrator" where
  "plain_call env c s = (outcome env (length (trace s)) c, s\<lparr>trace := trace s @ [c]\<rparr>)"

definition cancel_workflow :: "environment \<Rightarrow> string \<Rightarrow> orchestrator \<Rightarrow> (exn + bool) \<times> orchestrator" where
  "cancel_workflow env eid s =
     (case active_workflows s eid of
        None \<Rightarrow> (Inr False, s)
      | Some a \<Rightarrow>
          (let s1 = modify a (\<lambda>w. w\<lparr>is_cancelled := True\<rparr>) s;
               s2 = logger INFO (''Workflow cancellation requested for '' @ eid) s1
           in case plain_call env (PublishExperimentEvent eid ''workflow_cancelled'') s2 of
                (Inl e, s3) \<Rightarrow> (Inl e, s3)
              | (Inr r, s3) \<Rightarrow> (Inr True, s3)))"

text \<open>
  An awaited call of a workflow: the call is made, and while the workflow waits for its
  result another task may run \<open>cancel_workflow\<close>.
\<close>

definition do_call :: "environment \<Rightarrow> call \<Rightarrow> orchestrator \<Rightarrow> (exn + reply) \<times> orchestrator" where
  "do_call env c s =
     (let n = length (trace s);
          s1 = s\<lparr>trace := trace s @ [c]\<rparr>
      in (outcome env n c,
          (case cancel_request env n of
             None \<Rightarrow> s1
           | Some eid \<Rightarrow> snd (cancel_workflow env eid s1))))"

definition sleep :: "environment \<Rightarrow> real \<Rightarrow> orchestrator \<Rightarrow> (exn + unit) \<times> orchestrator" where
  "sleep env d s = (Inr (), snd (do_call env (AsyncioSleep d) s))"

text \<open>A session id is truthy when it is a non-empty string.\<close>

definition truthy :: "string option \<Rightarrow> bool" where
  "truthy sid = (case sid of None \<Rightarrow> False | Some x \<Rightarrow> x \<noteq> [])"

subsection \<open>Phases\<close>

definition then_do ::
  "('s \<Rightarrow> (exn + 'a) \<times> 's) \<Rightarrow> ('s \<Rightarrow> (exn + 'b) \<times> 's) \<Rightarrow> 's \<Rightarrow> (exn + 'b) \<times> 's" where
  "then_do m k = and_then m (\<lambda>x. k)"

definition set_phase :: "nat \<Rightarrow> WorkflowPhase \<Rightarrow> orchestrator \<Rightarrow> (exn + unit) \<times> orchestrator" where
  "set_phase a p = effect (modify a (\<lambda>w. w\<lparr>current_phase := p\<rparr>))"

definition update_workflow_phase :: "environment \<Rightarrow> nat \<Rightarrow> orchestrator \<Rightarrow> (exn + unit) \<times> orchestrator" where
  "update_workflow_phase env a =
     then_do
       (\<lambda>s. do_call env
              (UpdateExperimentPhase (experiment_id (heap s a))
                 (WorkflowPhase_value (current_phase (heap s a)))) s)
       (effect (\<lambda>s. modify a (\<lambda>w. w\<lparr>phase_start_time := utc_now env s\<rparr>) s))"

definition publish_experiment_event ::
  "environment \<Rightarrow> nat \<Rightarrow> string \<Rightarrow> orchestrator \<Rightarrow> (exn + reply) \<times> orchestrator" where
  "publish_experiment_event env a subtype s =
     do_call env (PublishExperimentEvent (experiment_id (heap s a)) subtype) s"

definition log_for ::
  "nat \<Rightarrow> log_level \<Rightarrow> string \<Rightarrow> string \<Rightarrow> orchestrator \<Rightarrow> (exn + unit) \<times> orchestrator" where
  "log_for a lvl front rear =
     effect (\<lambda>s. logger lvl (front @ experiment_id (heap s a) @ rear) s)"

definition phase_error_message :: "string \<Rightarrow> exn \<Rightarrow> string" where
  "phase_error_message phase error = ''Error in '' @ phase @ '' phase: '' @ str_exn error"

definition handle_phase_error ::
  "environment \<Rightarrow> nat \<Rightarrow> string \<Rightarrow> exn \<Rightarrow> orchestrator \<Rightarrow> (exn + unit) \<times> orchestrator" where
  "handle_phase_error env a phase error =
     then_do (effect (modify a (\<lambda>w. w\<lparr>error_count := error_count w + 1\<rparr>)))
    (then_do (log_for a ERROR ''Phase error for '' ('': '' @ phase_error_message phase error))
    (then_do (publish_experiment_event env a ''workflow_phase_error'')
    (then_do
       (\<lambda>s. if retry_count (heap s a) < max_retries (settings s)
             then (then_do (effect (modify a (\<lambda>w. w\<lparr>retry_count := retry_count w + 1\<rparr>)))
                  (then_do (\<lambda>s. effect (logger INFO
                                (''Attempting retry '' @ string_of_int (retry_count (heap s a)) @
                                 '' for '' @ experiment_id (heap s a))) s)
                           (\<lambda>s. sleep env (real_of_int (retry_delay (settings s))) s))) s
             else succeed () s)
    (then_do
       (\<lambda>s. do_call env
              (UpdateExperimentError (experiment_id (heap s a)) (phase_error_message phase error)) s)
       (succeed ())))))"

text \<open>
  The \<open>except\<close> clause of the first five phases: the error handler runs and the
  exception is raised again (an exception of the handler itself takes its place).
\<close>

definition guarded_phase ::
  "environment \<Rightarrow> nat \<Rightarrow> string \<Rightarrow> (orchestrator \<Rightarrow> (exn + unit) \<times> orchestrator)
     \<Rightarrow> orchestrator \<Rightarrow> (exn + unit) \<times> orchestrator" where
  "guarded_phase env a phase body =
     try_except body (\<lambda>e. then_do (handle_phase_error env a phase e) (throw e))"

definition validate_experiment_config :: "ExperimentConfig \<Rightarrow> exn + unit" where
  "validate_experiment_config cfg =
     (if config_experiment_id cfg = [] then Inl (ValueError ''Experiment ID is required'')
      else case carla_config cfg of
             None \<Rightarrow> Inl (ValueError ''CARLA configuration is required'')
           | Some cc \<Rightarrow>
               (case dreamer_config cfg of
                  None \<Rightarrow> Inl (ValueError ''DreamerV3 configuration is required'')
                | Some dc \<Rightarrow>
                    if simulation_time cc \<le> 0
                    then Inl (ValueError ''Simulation time must be positive'')
                    else if model_path dc = []
                    then Inl (ValueError ''DreamerV3 model path is required'')
                    else Inr ()))"

definition initialization_body ::
  "environment \<Rightarrow> nat \<Rightarrow> orchestrator \<Rightarrow> (exn + unit) \<times> orchestrator" where
  "initialization_body env a =
     then_do (\<lambda>s. case validate_experiment_config (config (heap s a)) of
                    Inl e \<Rightarrow> throw e s
                  | Inr u \<Rightarrow> succeed () s)
    (then_do (publish_experiment_event env a ''workflow_phase_started'')
             (log_for a INFO ''Initialization phase completed for '' []))"

definition execute_initialization_phase ::
  "environment \<Rightarrow> nat \<Rightarrow> orchestrator \<Rightarrow> (exn + unit) \<times> orchestrator" where
  "execute_initialization_phase env a =
     then_do (set_phase a INITIALIZATION)
    (then_do (update_workflow_phase env a)
             (guarded_phase env a ''initialization'' (initialization_body env a)))"

text \<open>
  The readiness checks: up to five health checks of the service, two seconds apart; a
  check that raises counts as one that found the service not ready.
\<close>

fun verify_readiness_from ::
  "environment \<Rightarrow> string \<Rightarrow> string \<Rightarrow> string \<Rightarrow> nat \<Rightarrow> int \<Rightarrow> orchestrator
     \<Rightarrow> (exn + unit) \<times> orchestrator" where
  "verify_readiness_from env service label failure 0 attempt s = (Inl (Exception failure), s)"
| "verify_readiness_from env service label failure (Suc k) attempt s =
     (case do_call env (CheckServiceHealth service) s of
        (Inr health_status, s1) \<Rightarrow>
          if reply_status health_status = Some ''healthy'' then (Inr (), s1)
          else verify_readiness_from env service label failure k (attempt + 1)
                 (snd (sleep env 2
                    (logger WARNING
                       (label @ '' not ready, attempt '' @ string_of_int (attempt + 1) @ ''/5'') s1)))
      | (Inl e, s1) \<Rightarrow>
          verify_readiness_from env service label failure k (attempt + 1)
            (snd (sleep env 2
               (logger WARNING (label @ '' readiness check failed: '' @ str_exn e) s1))))"

definition verify_carla_readiness ::
  "environment \<Rightarrow> orchestrator \<Rightarrow> (exn + unit) \<times> orchestrator" where
  "verify_carla_readiness env =
     verify_readiness_from env ''carla-runner'' ''CARLA''
       ''CARLA simulation failed to become ready'' (Suc (Suc (Suc (Suc (Suc 0))))) 0"

definition verify_dreamer_readiness ::
  "environment \<Rightarrow> orchestrator \<Rightarrow> (exn + unit) \<times> orchestrator" where
  "verify_dreamer_readiness env =
     verify_readiness_from env ''dreamerv3-service'' ''DreamerV3''
       ''DreamerV3 model failed to become ready'' (Suc (Suc (Suc (Suc (Suc 0))))) 0"

definition carla_setup_body ::
  "environment \<Rightarrow> nat \<Rightarrow> orchestrator \<Rightarrow> (exn + unit) \<times> orchestrator" where
  "carla_setup_body env a =
     and_then
       (\<lambda>s. case carla_config (config (heap s a)) of
               None \<Rightarrow> throw (AttributeError ''NoneType object has no attribute dict'') s
             | Some cc \<Rightarrow> do_call env InitializeCarlaSimulation s)
       (\<lambda>carla_result.
          then_do (effect (modify a (\<lambda>w. w\<lparr>carla_session_id := reply_session_id carla_result,
                     phase_data := (phase_data w)\<lparr>carla_initialization := Some carla_result\<rparr>\<rparr>)))
         (then_do (verify_carla_readiness env)
         (then_do (publish_experiment_event env a ''carla_setup_completed'')
                  (log_for a INFO ''CARLA setup phase completed for '' []))))"

definition execute_carla_setup_phase ::
  "environment \<Rightarrow> nat \<Rightarrow> orchestrator \<Rightarrow> (exn + unit) \<times> orchestrator" where
  "execute_carla_setup_phase env a =
     then_do (set_phase a CARLA_SETUP)
    (then_do (update_workflow_phase env a)
             (guarded_phase env a ''carla_setup'' (carla_setup_body env a)))"

definition dreamer_setup_body ::
  "environment \<Rightarrow> nat \<Rightarrow> orchestrator \<Rightarrow> (exn + unit) \<times> orchestrator" where
  "dreamer_setup_body env a =
     and_then
       (\<lambda>s. case dreamer_config (config (heap s a)) of
               None \<Rightarrow> throw (AttributeError ''NoneType object has no attribute dict'') s
             | Some dc \<Rightarrow> do_call env InitializeDreamerModel s)
       (\<lambda>dreamer_result.
          then_do (effect (modify a (\<lambda>w. w\<lparr>dreamer_session_id := reply_session_id dreamer_result,
                     phase_data := (phase_data w)\<lparr>dreamer_initialization := Some dreamer_result\<rparr>\<rparr>)))
         (then_do (verify_dreamer_readiness env)
         (then_do (publish_experiment_event env a ''dreamer_setup_completed'')
                  (log_for a INFO ''DreamerV3 setup phase completed for '' []))))"

definition execute_dreamer_setup_phase ::
  "environment \<Rightarrow> nat \<Rightarrow> orchestrator \<Rightarrow> (exn + unit) \<times> orchestrator" where
  "execute_dreamer_setup_phase env a =
     then_do (set_phase a DREAMER_SETUP)
    (then_do (update_workflow_phase env a)
             (guarded_phase env a ''dreamer_setup'' (dreamer_setup_body env a)))"

subsection \<open>The simulation loop\<close>

text \<open>
  One pass through the \<open>try\<close> block of the loop: the four calls on the services, the
  merge of the step metrics into the results, the progress update and the short sleep.
  It gives the exception of the first call that raised, if any, with the metrics as
  they are at that point.
\<close>

definition simulation_step ::
  "environment \<Rightarrow> nat \<Rightarrow> (string \<times> real) list \<Rightarrow> orchestrator
     \<Rightarrow> (exn + unit) \<times> (string \<times> real) list \<times> orchestrator" where
  "simulation_step env a results s =
     (case do_call env (GetSimulationState (carla_session_id (heap s a))) s of
        (Inl e, s1) \<Rightarrow> (Inl e, results, s1)
      | (Inr sim_state, s1) \<Rightarrow>
     (case do_call env (GetAiDecision (dreamer_session_id (heap s1 a))) s1 of
        (Inl e, s2) \<Rightarrow> (Inl e, results, s2)
      | (Inr ai_decision, s2) \<Rightarrow>
     (case do_call env (ApplySimulationAction (carla_session_id (heap s2 a))) s2 of
        (Inl e, s3) \<Rightarrow> (Inl e, results, s3)
      | (Inr applied, s3) \<Rightarrow>
     (case do_call env (GetSimulationMetrics (carla_session_id (heap s3 a))) s3 of
        (Inl e, s4) \<Rightarrow> (Inl e, results, s4)
      | (Inr step_metrics, s4) \<Rightarrow>
          (let results1 = AList.merge results (reply_metrics step_metrics)
           in case do_call env (UpdateExperimentProgress (experiment_id (heap s4 a))) s4 of
                (Inl e, s5) \<Rightarrow> (Inl e, results1, s5)
              | (Inr updated, s5) \<Rightarrow> (Inr (), results1, snd (sleep env (1 / 10) s5)))))))"

text \<open>
  The \<open>while\<close> loop, from the test of its condition. It returns the step count and
  the metrics when the time is up or the workflow is cancelled, and the exception when
  the error count has passed ten; a loop that goes on for ever has no result.
\<close>

partial_function (option) simulation_loop ::
  "environment \<Rightarrow> nat \<Rightarrow> int \<Rightarrow> datetime \<Rightarrow> int \<Rightarrow> (string \<times> real) list \<Rightarrow> orchestrator
     \<Rightarrow> ((exn + int \<times> (string \<times> real) list) \<times> orchestrator) option" where
  "simulation_loop env a sim_time start_time step_count results s =
     (if timedelta_seconds (utc_now env s - start_time) < sim_time then
        if is_cancelled (heap s a) then
          Some (Inr (step_count, results),
                logger INFO (''Simulation cancelled for '' @ experiment_id (heap s a)) s)
        else
          (case simulation_step env a results s of
             (Inr u, results1, s1) \<Rightarrow>
               simulation_loop env a sim_time start_time (step_count + 1) results1 s1
           | (Inl e, results1, s1) \<Rightarrow>
               (let s2 = logger ERROR
                           (''Error in simulation step '' @ string_of_int step_count @ '': '' @
                            str_exn e) s1;
                    s3 = modify a (\<lambda>w. w\<lparr>error_count := error_count w + 1\<rparr>) s2
                in if error_count (heap s3 a) > 10
                   then Some (Inl (Exception
                                (''Too many simulation errors ('' @
                                 string_of_int (error_count (heap s3 a)) @ '')'')), s3)
                   else simulation_loop env a sim_time start_time step_count results1 s3))
      else Some (Inr (step_count, results), s))"

text \<open>
  \<open>_run_simulation_loop\<close>. The elapsed time that the last log line prints with two
  decimals is left out of the message.
\<close>

definition run_simulation_loop ::
  "environment \<Rightarrow> nat \<Rightarrow> orchestrator \<Rightarrow> ((exn + SimulationResults) \<times> orchestrator) option" where
  "run_simulation_loop env a s =
     (case carla_config (config (heap s a)) of
        None \<Rightarrow> Some (Inl (AttributeError ''NoneType object has no attribute simulation_time''), s)
      | Some cc \<Rightarrow>
          (let start_time = utc_now env s;
               s1 = logger INFO
                      (''Starting simulation loop for '' @ string_of_int (simulation_time cc) @
                       '' seconds'') s
           in case simulation_loop env a (simulation_time cc) start_time 0 [] s1 of
                None \<Rightarrow> None
              | Some (Inl e, s2) \<Rightarrow> Some (Inl e, s2)
              | Some (Inr (step_count, results), s2) \<Rightarrow>
                  (let total_time = timedelta_total_seconds (utc_now env s2 - start_time)
                   in Some (Inr \<lparr>results_metrics = results, results_events = [],
                                 results_artifacts = [],
                                 results_summary =
                                   Some \<lparr>total_steps = step_count,
                                         total_time_seconds = total_time,
                                         steps_per_second =
                                           (if total_time > 0
                                            then real_of_int step_count / total_time else 0),
                                         summary_error_count = error_count (heap s2 a)\<rparr>\<rparr>,
                            logger INFO
                              (''Simulation loop completed: '' @ string_of_int step_count @
                               '' steps'') s2))))"

definition simulation_body ::
  "environment \<Rightarrow> nat \<Rightarrow> orchestrator \<Rightarrow> ((exn + unit) \<times> orchestrator) option" where
  "simulation_body env a s =
     (case do_call env (StartCarlaSimulation (carla_session_id (heap s a))) s of
        (Inl e, s1) \<Rightarrow> Some (Inl e, s1)
      | (Inr started, s1) \<Rightarrow>
          (case run_simulation_loop env a s1 of
             None \<Rightarrow> None
           | Some (Inl e, s2) \<Rightarrow> Some (Inl e, s2)
           | Some (Inr results, s2) \<Rightarrow>
               Some ((then_do
                        (effect (modify a (\<lambda>w. w\<lparr>
                           phase_data := (phase_data w)\<lparr>simulation_results := Some results\<rparr>,
                           metrics := AList.merge (metrics w) (results_metrics results),
                           artifacts := artifacts w @ results_artifacts results\<rparr>)))
                     (then_do (publish_experiment_event env a ''simulation_completed'')
                              (log_for a INFO ''Simulation phase completed for '' []))) s2)))"

definition execute_simulation_phase ::
  "environment \<Rightarrow> nat \<Rightarrow> orchestrator \<Rightarrow> ((exn + unit) \<times> orchestrator) option" where
  "execute_simulation_phase env a s =
     (case then_do (set_phase a SIMULATION_EXECUTION) (update_workflow_phase env a) s of
        (Inl e, s1) \<Rightarrow> Some (Inl e, s1)
      | (Inr u, s1) \<Rightarrow>
          (case simulation_body env a s1 of
             None \<Rightarrow> None
           | Some (Inr v, s2) \<Rightarrow> Some (Inr (), s2)
           | Some (Inl e, s2) \<Rightarrow>
               Some (then_do (handle_phase_error env a ''simulation_execution'' e) (throw e) s2)))"

subsection \<open>Result processing, cleanup and the workflow\<close>

text \<open>
  The values handed to the data store and the reporter (processed results, summary) are
  computed without raising and are not part of the calls recorded here.
\<close>

fun store_experiment_artifacts ::
  "environment \<Rightarrow> string \<Rightarrow> string list \<Rightarrow> orchestrator \<Rightarrow> (exn + unit) \<times> orchestrator" where
  "store_experiment_artifacts env eid [] s = (Inr (), s)"
| "store_experiment_artifacts env eid (artifact # rest) s =
     (case do_call env (StoreExperimentArtifact eid artifact) s of
        (Inl e, s1) \<Rightarrow> (Inl e, s1)
      | (Inr stored, s1) \<Rightarrow> store_experiment_artifacts env eid rest s1)"

definition result_processing_body ::
  "environment \<Rightarrow> nat \<Rightarrow> orchestrator \<Rightarrow> (exn + unit) \<times> orchestrator" where
  "result_processing_body env a =
     then_do (\<lambda>s. do_call env (StoreExperimentMetrics (experiment_id (heap s a))) s)
    (then_do (\<lambda>s. store_experiment_artifacts env (experiment_id (heap s a)) (artifacts (heap s a)) s)
    (then_do (\<lambda>s. do_call env (StoreExperimentSummary (experiment_id (heap s a))) s)
    (then_do (\<lambda>s. do_call env (SubmitExperimentResults (experiment_id (heap s a))) s)
    (then_do (publish_experiment_event env a ''result_processing_completed'')
             (log_for a INFO ''Result processing phase completed for '' [])))))"

definition execute_result_processing_phase ::
  "environment \<Rightarrow> nat \<Rightarrow> orchestrator \<Rightarrow> (exn + unit) \<times> orchestrator" where
  "execute_result_processing_phase env a =
     then_do (set_phase a RESULT_PROCESSING)
    (then_do (update_workflow_phase env a)
             (guarded_phase env a ''result_processing'' (result_processing_body env a)))"

definition cleanup_body ::
  "environment \<Rightarrow> nat \<Rightarrow> orchestrator \<Rightarrow> (exn + unit) \<times> orchestrator" where
  "cleanup_body env a =
     then_do (\<lambda>s. if truthy (carla_session_id (heap s a))
                  then then_do (do_call env (StopCarlaSimulation (the (carla_session_id (heap s a)))))
                         (succeed ()) s
                  else succeed () s)
    (then_do (\<lambda>s. if truthy (dreamer_session_id (heap s a))
                  then then_do (do_call env (ReleaseDreamerSession (the (dreamer_session_id (heap s a)))))
                         (succeed ()) s
                  else succeed () s)
    (then_do (publish_experiment_event env a ''cleanup_completed'')
             (log_for a INFO ''Cleanup phase completed for '' [])))"

text \<open>
  The cleanup phase: the phase is written to the data store first, outside the
  \<open>try\<close> block; what the block raises is logged as a warning and goes no further.
\<close>

definition execute_cleanup_phase ::
  "environment \<Rightarrow> nat \<Rightarrow> orchestrator \<Rightarrow> (exn + unit) \<times> orchestrator" where
  "execute_cleanup_phase env a =
     then_do (set_phase a CLEANUP)
    (then_do (update_workflow_phase env a)
             (try_except (cleanup_body env a)
                (\<lambda>e. log_for a WARNING ''Cleanup phase had errors for '' ('': '' @ str_exn e))))"

definition handle_workflow_failure ::
  "environment \<Rightarrow> nat \<Rightarrow> string \<Rightarrow> orchestrator \<Rightarrow> (exn + unit) \<times> orchestrator" where
  "handle_workflow_failure env a message =
     then_do (log_for a ERROR ''Workflow failed for '' ('': '' @ message))
    (then_do (\<lambda>s. do_call env (UpdateExperimentFailed (experiment_id (heap s a)) message) s)
    (then_do (publish_experiment_event env a ''workflow_failed'')
             (try_except (execute_cleanup_phase env a)
                (\<lambda>cleanup_error.
                   effect (logger ERROR
                     (''Cleanup after failure also failed: '' @ str_exn cleanup_error))))))"

text \<open>
  \<open>execute_experiment_workflow\<close> in three parts: the creation and registration of the
  workflow state before the \<open>try\<close>, the \<open>try\<close> block with its \<open>except\<close>
  clause, and the \<open>finally\<close> clause.
\<close>

definition begin_workflow ::
  "environment \<Rightarrow> string \<Rightarrow> ExperimentConfig \<Rightarrow> orchestrator \<Rightarrow> nat \<times> orchestrator" where
  "begin_workflow env eid cfg s =
     (let a = next_ref s
      in (a, s\<lparr>heap := (heap s)(a := WorkflowState_init eid cfg (utc_now env s)),
               next_ref := a + 1,
               active_workflows := (active_workflows s)(eid \<mapsto> a)\<rparr>))"

definition run_phases ::
  "environment \<Rightarrow> nat \<Rightarrow> orchestrator \<Rightarrow> ((exn + unit) \<times> orchestrator) option" where
  "run_phases env a s =
     (case then_do (log_for a INFO ''Starting experiment workflow for '' [])
          (then_do (execute_initialization_phase env a)
          (then_do (execute_carla_setup_phase env a)
                   (execute_dreamer_setup_phase env a))) s of
        (Inl e, s1) \<Rightarrow> Some (Inl e, s1)
      | (Inr u, s1) \<Rightarrow>
          (case execute_simulation_phase env a s1 of
             None \<Rightarrow> None
           | Some (Inl e, s2) \<Rightarrow> Some (Inl e, s2)
           | Some (Inr v, s2) \<Rightarrow>
               Some ((then_do (execute_result_processing_phase env a)
                     (then_do (execute_cleanup_phase env a)
                     (then_do (set_phase a COMPLETED)
                     (then_do (update_workflow_phase env a)
                              (log_for a INFO ''Experiment workflow completed for '' []))))) s2)))"

definition workflow_failed ::
  "environment \<Rightarrow> nat \<Rightarrow> exn \<Rightarrow> orchestrator \<Rightarrow> (exn + unit) \<times> orchestrator" where
  "workflow_failed env a e =
     then_do (log_for a ERROR ''Experiment workflow failed for '' ('': '' @ str_exn e))
    (then_do (set_phase a FAILED)
             (handle_workflow_failure env a (str_exn e)))"

definition end_workflow :: "string \<Rightarrow> orchestrator \<Rightarrow> orchestrator" where
  "end_workflow eid s = s\<lparr>active_workflows := (active_workflows s)(eid := None)\<rparr>"

definition execute_experiment_workflow ::
  "environment \<Rightarrow> string \<Rightarrow> ExperimentConfig \<Rightarrow> orchestrator
     \<Rightarrow> ((exn + unit) \<times> orchestrator) option" where
  "execute_experiment_workflow env eid cfg s =
     (case begin_workflow env eid cfg s of
        (a, s1) \<Rightarrow>
          (case run_phases env a s1 of
             None \<Rightarrow> None
           | Some (Inr u, s2) \<Rightarrow> Some (Inr (), end_workflow eid s2)
           | Some (Inl e, s2) \<Rightarrow>
               (case workflow_failed env a e s2 of
                  (r, s3) \<Rightarrow> Some (r, end_workflow eid s3))))"

text \<open>The phases written to the data store, in the order of the calls.\<close>

fun phase_of_call :: "call \<Rightarrow> string list" where
  "phase_of_call (UpdateExperimentPhase eid p) = [p]"
| "phase_of_call c = []"

definition phases_of :: "call list \<Rightarrow> string list" where
  "phases_of cs = concat (map phase_of_call cs)"

text \<open>
  Example data: a recovery environment in which every outside operation succeeds, an
  empty state manager, a checkpoint for the simulation \<open>sim-1\<close> and an empty world in
  which every spawn point is free.
\<close>

definition example_recovery_env :: recovery_env where
  "example_recovery_env =
     \<lparr>process_running = False, launch_carla = Inr 1, connection_test = Inr (),
      cleanup_simulation = Inr ()\<rparr>"

definition example_state_manager :: StateManager where
  "example_state_manager = \<lparr>checkpoints = Map.empty, error_history = [], sm_log = []\<rparr>"




section \<open>Properties of the circuit breaker\<close>

lemma breaker_ok_init: "breaker_ok (CircuitBreaker_init threshold tmo)"
  by (simp add: breaker_ok_def CircuitBreaker_init_def)










lemma trial_invoked:
  assumes "state cb = Open" and "last_failure_time cb = Some t"
    and "clock w - t \<ge> real_of_int (timeout cb)"
  shows "fst (call clock func cb w) = fst (func w) \<and> snd (snd (call clock func cb w)) = snd (func w)"
  using assms
  by (auto simp: call_def should_attempt_reset_def Let_def split: prod.splits sum.splits)






section \<open>Properties of the error handler\<close>

lemma default_max_pos: "1 \<le> max_attempts (default_recovery_strategies etype)"
  by (cases etype) simp_all

lemma attempts_of_increment:
  "attempts_of (increment_recovery_attempt s t eh) s' t' =
     (if s' = s \<and> t' = t then attempts_of eh s t + 1 else attempts_of eh s' t')"
  by (auto simp: attempts_of_def increment_recovery_attempt_def Let_def split: option.splits)

lemma should_attempt_configured:
  assumes "configured eh"
  shows "should_attempt_recovery eh s t =
           Inr (attempts_of eh s t < max_attempts (default_recovery_strategies t))"
  using assms default_max_pos[of t]
  by (auto simp: should_attempt_recovery_def attempts_of_def configured_def Let_def
           split: option.splits)

lemma eh_logger_fields [simp]:
  "recovery_attempts (eh_logger l m eh) = recovery_attempts eh"
  "recovery_strategies (eh_logger l m eh) = recovery_strategies eh"
  "state_manager (eh_logger l m eh) = state_manager eh"
  "carla_process (eh_logger l m eh) = carla_process eh"
  "carla_restart_count (eh_logger l m eh) = carla_restart_count eh"
  "max_carla_restarts (eh_logger l m eh) = max_carla_restarts eh"
  "eh_log (eh_logger l m eh) = eh_log eh @ [(l, m)]"
  by (simp_all add: eh_logger_def)

lemma sm_logger_fields [simp]:
  "checkpoints (sm_logger l m sm) = checkpoints sm"
  "error_history (sm_logger l m sm) = error_history sm"
  "sm_log (sm_logger l m sm) = sm_log sm @ [(l, m)]"
  by (simp_all add: sm_logger_def)

lemma restart_carla_server_keeps:
  assumes "restart_carla_server env eh = (b, eh')"
  shows "recovery_attempts eh' = recovery_attempts eh \<and>
         recovery_strategies eh' = recovery_strategies eh \<and>
         state_manager eh' = state_manager eh"
  using assms
  by (auto simp: restart_carla_server_def Let_def split: if_splits sum.splits)

lemma restart_simulation_keeps:
  assumes "restart_simulation env s ctx eh = (b, eh')"
  shows "recovery_attempts eh' = recovery_attempts eh \<and>
         recovery_strategies eh' = recovery_strategies eh \<and>
         state_manager eh' = state_manager eh"
  using assms
  by (auto simp: restart_simulation_def Let_def split: if_splits sum.splits option.splits)

lemma restore_checkpoint_keeps:
  assumes "restore_checkpoint sm s w bp = (v, sm', w')"
  shows "checkpoints sm' = checkpoints sm \<and> error_history sm' = error_history sm"
  using assms
  by (auto simp: restore_checkpoint_def split: option.splits sum.splits prod.splits)

lemma restore_from_checkpoint_keeps:
  assumes "restore_from_checkpoint s ctx eh = (b, eh', ctx')"
  shows "recovery_attempts eh' = recovery_attempts eh \<and>
         recovery_strategies eh' = recovery_strategies eh \<and>
         checkpoints (state_manager eh') = checkpoints (state_manager eh) \<and>
         error_history (state_manager eh') = error_history (state_manager eh)"
  using assms
  by (auto simp: restore_from_checkpoint_def split: option.splits if_splits prod.splits
           dest: restore_checkpoint_keeps)

lemma execute_recovery_strategy_keeps:
  assumes "execute_recovery_strategy env s a ctx eh = (b, eh', ctx')"
  shows "recovery_attempts eh' = recovery_attempts eh \<and>
         recovery_strategies eh' = recovery_strategies eh \<and>
         checkpoints (state_manager eh') = checkpoints (state_manager eh) \<and>
         error_history (state_manager eh') = error_history (state_manager eh)"
proof (cases "strategy a")
  case RESTART_CARLA
  with assms show ?thesis
    by (auto simp: execute_recovery_strategy_def Let_def split: prod.splits
             dest!: restart_carla_server_keeps)
next
  case RESTART_SIMULATION
  with assms show ?thesis
    by (auto simp: execute_recovery_strategy_def Let_def split: prod.splits
             dest!: restart_simulation_keeps)
next
  case RESTORE_CHECKPOINT
  with assms show ?thesis
    by (auto simp: execute_recovery_strategy_def Let_def dest!: restore_from_checkpoint_keeps)
next
  case SCALE_DOWN
  with assms show ?thesis
    by (auto simp: execute_recovery_strategy_def Let_def scale_down_resources_def)
next
  case WAIT_AND_RETRY
  with assms show ?thesis
    by (auto simp: execute_recovery_strategy_def Let_def wait_and_retry_def)
next
  case FAIL_GRACEFULLY
  with assms show ?thesis
    by (auto simp: execute_recovery_strategy_def Let_def fail_gracefully_def)
qed


lemma note_error_fields [simp]:
  "recovery_attempts (note_error now s t m c eh) = recovery_attempts eh"
  "recovery_strategies (note_error now s t m c eh) = recovery_strategies eh"
  "carla_process (note_error now s t m c eh) = carla_process eh"
  "carla_restart_count (note_error now s t m c eh) = carla_restart_count eh"
  "max_carla_restarts (note_error now s t m c eh) = max_carla_restarts eh"
  "checkpoints (state_manager (note_error now s t m c eh)) = checkpoints (state_manager eh)"
  "eh_log (note_error now s t m c eh) =
     eh_log eh @ [(ERROR, ''Handling error for '' @ s @ '': '' @ ErrorType_value t @ '' - '' @ m)]"
  "error_history (state_manager (note_error now s t m c eh)) =
     error_history (state_manager eh) @
     [\<lparr>timestamp = now, simulation_id = s, error_type = ErrorType_value t, error_message = m,
       stack_trace = context_stack_trace c, recovery_attempted = False,
       recovery_successful = False\<rparr>]"
  by (simp_all add: note_error_def record_error_def Let_def)

lemma attempts_of_cong:
  "recovery_attempts eh' = recovery_attempts eh \<Longrightarrow> attempts_of eh' = attempts_of eh"
  by (intro ext) (simp add: attempts_of_def)

lemma configured_cong:
  "recovery_strategies eh' = recovery_strategies eh \<Longrightarrow> configured eh' = configured eh"
  by (simp add: configured_def)

lemma increment_fields [simp]:
  "recovery_strategies (increment_recovery_attempt s t eh) = recovery_strategies eh"
  "state_manager (increment_recovery_attempt s t eh) = state_manager eh"
  "eh_log (increment_recovery_attempt s t eh) = eh_log eh"
  by (simp_all add: increment_recovery_attempt_def Let_def)

text \<open>The three ways a call to handle_error can go on a configured handler.\<close>

lemma handle_error_exhausted:
  assumes "configured eh"
    and "max_attempts (default_recovery_strategies etype) \<le> attempts_of eh sim_id etype"
  shows "handle_error env now sim_id etype msg ctxo eh =
           (Inr False,
            eh_logger WARNING
              (''Max recovery attempts reached for '' @ sim_id @ '', '' @ ErrorType_value etype)
              (note_error now sim_id etype msg ctxo eh),
            ctxo)"
proof -
  let ?eh2 = "note_error now sim_id etype msg ctxo eh"
  have c2: "configured ?eh2" using assms(1) by (simp add: configured_def)
  have a2: "attempts_of ?eh2 = attempts_of eh" by (rule attempts_of_cong) simp
  have "should_attempt_recovery ?eh2 sim_id etype = Inr False"
    using should_attempt_configured[OF c2, of sim_id etype] a2 assms(2) by simp
  then show ?thesis by (simp add: handle_error_def Let_def)
qed

lemma handle_error_attempted:
  assumes "configured eh"
    and "attempts_of eh sim_id etype < max_attempts (default_recovery_strategies etype)"
  shows "handle_error env now sim_id etype msg ctxo eh =
           (case execute_recovery_strategy env sim_id (default_recovery_strategies etype)
                   (case ctxo of None \<Rightarrow> empty_context | Some c \<Rightarrow> c)
                   (increment_recovery_attempt sim_id etype (note_error now sim_id etype msg ctxo eh)) of
              (success, eh4, ctx') \<Rightarrow>
                (Inr success,
                 eh4\<lparr>state_manager := update_last_error success (state_manager eh4)\<rparr>,
                 (case ctxo of None \<Rightarrow> None | Some c \<Rightarrow> Some ctx')))"
proof -
  let ?eh2 = "note_error now sim_id etype msg ctxo eh"
  have c2: "configured ?eh2" using assms(1) by (simp add: configured_def)
  have a2: "attempts_of ?eh2 = attempts_of eh" by (rule attempts_of_cong) simp
  have s: "should_attempt_recovery ?eh2 sim_id etype = Inr True"
    using should_attempt_configured[OF c2, of sim_id etype] a2 assms(2) by simp
  have t: "recovery_strategies eh etype = Some (default_recovery_strategies etype)"
    using assms(1) by (simp add: configured_def)
  show ?thesis by (simp add: handle_error_def Let_def s t)
qed

lemma handle_error_bounded:
  assumes "attempts_bounded eh" and "handle_error env now sim_id etype msg ctxo eh = (r, eh', ctxo')"
  shows "attempts_bounded eh'"
proof (cases "attempts_of eh sim_id etype < max_attempts (default_recovery_strategies etype)")
  case False
  with assms have cfg: "configured eh" by (simp add: attempts_bounded_def)
  from False have "max_attempts (default_recovery_strategies etype) \<le> attempts_of eh sim_id etype"
    by simp
  from handle_error_exhausted[OF cfg this, of env now msg ctxo] assms(2)
  have "eh' = eh_logger WARNING
              (''Max recovery attempts reached for '' @ sim_id @ '', '' @ ErrorType_value etype)
              (note_error now sim_id etype msg ctxo eh)" by simp
  then have "recovery_attempts eh' = recovery_attempts eh"
    and "recovery_strategies eh' = recovery_strategies eh" by simp_all
  then show ?thesis using assms(1) attempts_of_cong[of eh' eh] configured_cong[of eh' eh]
    by (simp add: attempts_bounded_def)
next
  case True
  from assms have cfg: "configured eh" by (simp add: attempts_bounded_def)
  let ?eh3 = "increment_recovery_attempt sim_id etype (note_error now sim_id etype msg ctxo eh)"
  obtain success eh4 ctx' where
    ex: "execute_recovery_strategy env sim_id (default_recovery_strategies etype)
           (case ctxo of None \<Rightarrow> empty_context | Some c \<Rightarrow> c) ?eh3 = (success, eh4, ctx')"
    by (metis prod_cases3)
  from handle_error_attempted[OF cfg True, of env now msg ctxo] assms(2) ex
  have eh': "eh' = eh4\<lparr>state_manager := update_last_error success (state_manager eh4)\<rparr>"
    by simp
  from execute_recovery_strategy_keeps[OF ex]
  have k: "recovery_attempts eh4 = recovery_attempts ?eh3"
    "recovery_strategies eh4 = recovery_strategies ?eh3" by simp_all
  have ra: "recovery_attempts eh' = recovery_attempts ?eh3" using eh' k by simp
  have rs: "recovery_strategies eh' = recovery_strategies eh" using eh' k by simp
  have ao: "attempts_of eh' = attempts_of ?eh3" by (rule attempts_of_cong[OF ra])
  have an: "attempts_of (note_error now sim_id etype msg ctxo eh) = attempts_of eh"
    by (rule attempts_of_cong) simp
  have "attempts_of eh' s t \<le> max_attempts (default_recovery_strategies t)" for s t
    using assms(1) True by (simp add: ao attempts_of_increment an attempts_bounded_def)
  moreover have "configured eh'" using cfg configured_cong[OF rs] by simp
  ultimately show ?thesis by (simp add: attempts_bounded_def)
qed

lemma attempts_bounded_init: "attempts_bounded (ErrorHandler_init sm)"
  using default_max_pos
  by (auto simp: attempts_bounded_def configured_def attempts_of_def ErrorHandler_init_def
           intro: order_trans[of 0 1])

lemma handle_errors_bounded:
  "attempts_bounded eh \<Longrightarrow> attempts_bounded (handle_errors evs eh)"
proof (induction evs arbitrary: eh)
  case Nil
  then show ?case by simp
next
  case (Cons ev evs)
  obtain env now sim_id etype msg ctxo where ev: "ev = (env, now, sim_id, etype, msg, ctxo)"
    by (metis prod_cases3)
  obtain r eh1 c1 where h: "handle_error env now sim_id etype msg ctxo eh = (r, eh1, c1)"
    by (metis prod_cases3)
  from handle_error_bounded[OF Cons.prems h] have "attempts_bounded eh1" .
  from Cons.IH[OF this] ev h show ?case by simp
qed



text \<open>
  Claim C4. On a handler built by the constructor and used by any run of
  \<open>handle_error\<close> calls, no counter of a simulation and error type is above the
  \<open>max_attempts\<close> that the table gives the error type. On such a handler, a call
  for a pair whose counter has reached \<open>max_attempts\<close> returns \<open>False\<close> and its
  whole effect is the log line and error record written on entry and the warning that
  the attempts are used up: the counters, the restart counter, the server process and
  the context are as before, whatever the outside would have answered, and no strategy
  has run.
\<close>

theorem recovery_attempts_never_exceed_max:
  "attempts_of (handle_errors evs (ErrorHandler_init sm)) s t
     \<le> max_attempts (default_recovery_strategies t) \<and>
   (max_attempts (default_recovery_strategies etype)
      \<le> attempts_of (handle_errors evs (ErrorHandler_init sm)) sim_id etype
    \<longrightarrow> handle_error env now sim_id etype msg ctxo (handle_errors evs (ErrorHandler_init sm)) =
          (Inr False,
           eh_logger WARNING
             (''Max recovery attempts reached for '' @ sim_id @ '', '' @ ErrorType_value etype)
             (note_error now sim_id etype msg ctxo (handle_errors evs (ErrorHandler_init sm))),
           ctxo))"
proof -
  have b: "attempts_bounded (handle_errors evs (ErrorHandler_init sm))"
    by (rule handle_errors_bounded[OF attempts_bounded_init])
  then have cfg: "configured (handle_errors evs (ErrorHandler_init sm))"
    by (simp add: attempts_bounded_def)
  from b have "attempts_of (handle_errors evs (ErrorHandler_init sm)) s t
     \<le> max_attempts (default_recovery_strategies t)"
    by (simp add: attempts_bounded_def)
  moreover have "max_attempts (default_recovery_strategies etype)
      \<le> attempts_of (handle_errors evs (ErrorHandler_init sm)) sim_id etype
    \<longrightarrow> handle_error env now sim_id etype msg ctxo (handle_errors evs (ErrorHandler_init sm)) =
          (Inr False,
           eh_logger WARNING
             (''Max recovery attempts reached for '' @ sim_id @ '', '' @ ErrorType_value etype)
             (note_error now sim_id etype msg ctxo (handle_errors evs (ErrorHandler_init sm))),
           ctxo)"
    using handle_error_exhausted[OF cfg] by blast
  ultimately show ?thesis by blast
qed

theorem recovery_attempts_never_exceed_max_witness:
  "max_attempts (default_recovery_strategies MEMORY_EXHAUSTION)
     \<le> attempts_of
          (handle_errors
             [(example_recovery_env, 0, ''sim-1'', MEMORY_EXHAUSTION, ''oom'', None)]
             (ErrorHandler_init example_state_manager))
          ''sim-1'' MEMORY_EXHAUSTION \<and>
   fst (handle_error
          example_recovery_env 5 ''sim-1'' MEMORY_EXHAUSTION ''oom'' None
          (handle_errors
             [(example_recovery_env, 0, ''sim-1'', MEMORY_EXHAUSTION, ''oom'', None)]
             (ErrorHandler_init example_state_manager)))
     = Inr False"
proof -
  let ?env = "example_recovery_env"
  let ?sm = "example_state_manager"
  let ?eh = "handle_errors [(?env, 0, ''sim-1'', MEMORY_EXHAUSTION, ''oom'', None)]
               (ErrorHandler_init ?sm)"
  have h: "max_attempts (default_recovery_strategies MEMORY_EXHAUSTION)
             \<le> attempts_of ?eh ''sim-1'' MEMORY_EXHAUSTION"
    by (simp add: handle_error_def note_error_def record_error_def should_attempt_recovery_def
        ErrorHandler_init_def example_recovery_env_def example_state_manager_def eh_logger_def sm_logger_def increment_recovery_attempt_def
        execute_recovery_strategy_def scale_down_resources_def update_last_error_def
        attempts_of_def empty_context_def context_stack_trace_def Let_def)
  from recovery_attempts_never_exceed_max[THEN conjunct2, THEN mp, OF h, of ?env 5 "''oom''" None]
  have "fst (handle_error ?env 5 ''sim-1'' MEMORY_EXHAUSTION ''oom'' None ?eh) = Inr False"
    by simp
  with h show ?thesis by blast
qed



section \<open>Properties of checkpoint restore\<close>


lemma subscript_Inr: "subscript d k = Inr v \<longleftrightarrow> d k = Some v"
  by (simp add: subscript_def split: option.splits)








end
